theory Spec2Isabelle
  imports
    Complex_Main
    "HOL-Library.AList"
    "HOL-Library.Char_ord"
    "HOL-Library.List_Lexorder"
    "HOL-Library.Product_Lexorder"
begin

section \<open>Data model (lib/firestore.ts)\<close>

text \<open>
  A JavaScript \<open>number\<close> that holds a finite value is read as a real (IEEE rounding is not
  modelled); a \<open>Date\<close> is its \<open>getTime()\<close>, the milliseconds since the epoch. Document ids
  and user ids are strings.
\<close>

type_synonym number = real
type_synonym date = int

text \<open>The element type of \<open>GroupOrder.joinedVendors\<close>.\<close>

record JoinedVendor =
  userId :: string
  quantity :: number
  joinedAt :: date

datatype Status = Active | Completed | Expired

text \<open>
  \<open>Omit<GroupOrder, 'id' | 'createdAt'>\<close>, the argument of \<open>createGroupOrder\<close>, and the stored
  document, which has \<open>createdAt\<close> as well. The optional \<open>id\<close> is the document's key in the
  collection and is paired with the document where the source adds it.
\<close>

record GroupOrderData =
  createdBy :: string
  itemName :: string
  category :: string
  targetPrice :: number
  unit :: string
  minVendors :: number
  joinedVendors :: "JoinedVendor list"
  deadline :: date
  status :: Status

record GroupOrder = GroupOrderData +
  createdAt :: date

section \<open>The document store\<close>

text \<open>
  The Firestore SDK is not part of the repository. The \<open>groupOrders\<close> collection is an
  association list from document id to document. A call to the store may reject: \<open>faults\<close> is
  the schedule of the coming calls, each call consumes its head, \<open>True\<close> makes the call reject
  and the empty schedule means that no further call rejects.
\<close>

record Firestore =
  collection_groupOrders :: "(string \<times> GroupOrder) list"
  faults :: "bool list"

datatype error = FirebaseError string

definition next_fault :: "Firestore \<Rightarrow> bool \<times> Firestore" where
  "next_fault db =
     (case faults db of
        [] \<Rightarrow> (False, db)
      | f # fs \<Rightarrow> (f, db\<lparr>faults := fs\<rparr>))"

text \<open>\<open>getDoc(doc(db, 'groupOrders', id))\<close>: the snapshot, \<open>None\<close> when \<open>exists()\<close> is false.\<close>

definition getDoc :: "Firestore \<Rightarrow> string \<Rightarrow> (error + GroupOrder option) \<times> Firestore" where
  "getDoc db i =
     (case next_fault db of
        (True, db') \<Rightarrow> (Inl (FirebaseError ''unavailable''), db')
      | (False, db') \<Rightarrow> (Inr (map_of (collection_groupOrders db') i), db'))"

text \<open>
  \<open>updateDoc(ref, fields)\<close> overwrites the given fields of an existing document and rejects
  with \<open>not-found\<close> when there is none.
\<close>

definition updateDoc ::
  "Firestore \<Rightarrow> string \<Rightarrow> (GroupOrder \<Rightarrow> GroupOrder) \<Rightarrow> (error + unit) \<times> Firestore" where
  "updateDoc db i partialFields =
     (case next_fault db of
        (True, db') \<Rightarrow> (Inl (FirebaseError ''unavailable''), db')
      | (False, db') \<Rightarrow>
          (case map_of (collection_groupOrders db') i of
             None \<Rightarrow> (Inl (FirebaseError ''not-found''), db')
           | Some g \<Rightarrow>
               (Inr (),
                db'\<lparr>collection_groupOrders :=
                      AList.update i (partialFields g) (collection_groupOrders db')\<rparr>)))"

text \<open>
  \<open>addDoc(collection, data)\<close> writes the document under an id generated by the SDK,
  \<open>newId\<close> here, with the precondition that no document has this id.
\<close>

definition addDoc :: "Firestore \<Rightarrow> string \<Rightarrow> GroupOrder \<Rightarrow> (error + string) \<times> Firestore" where
  "addDoc db newId d =
     (case next_fault db of
        (True, db') \<Rightarrow> (Inl (FirebaseError ''unavailable''), db')
      | (False, db') \<Rightarrow>
          (case map_of (collection_groupOrders db') newId of
             Some g \<Rightarrow> (Inl (FirebaseError ''already-exists''), db')
           | None \<Rightarrow>
               (Inr newId,
                db'\<lparr>collection_groupOrders :=
                      AList.update newId d (collection_groupOrders db')\<rparr>)))"

text \<open>
  \<open>getDocs(query(collection, where('status', '==', s), orderBy('deadline')))\<close>: the documents
  whose status is \<open>s\<close>, in ascending order of deadline; Firestore orders documents with equal
  deadlines by document id.
\<close>

definition getDocs_where_status_orderBy_deadline ::
  "Firestore \<Rightarrow> Status \<Rightarrow> (error + (string \<times> GroupOrder) list) \<times> Firestore" where
  "getDocs_where_status_orderBy_deadline db s =
     (case next_fault db of
        (True, db') \<Rightarrow> (Inl (FirebaseError ''unavailable''), db')
      | (False, db') \<Rightarrow>
          (Inr (sort_key (\<lambda>(i, g). (deadline g, i))
                  (filter (\<lambda>(i, g). status g = s) (collection_groupOrders db'))),
           db'))"

section \<open>Group order operations (lib/firestore.ts)\<close>

text \<open>
  Every operation is \<open>try { ... } catch (error) { console.error(...); throw error; }\<close>: the
  rejection of a store call is rethrown to the caller as it is. The console output is not
  modelled. \<open>serverNow\<close> is the value the server gives to \<open>serverTimestamp()\<close>.
\<close>

definition createGroupOrder ::
  "Firestore \<Rightarrow> date \<Rightarrow> string \<Rightarrow> GroupOrderData \<Rightarrow> (error + string) \<times> Firestore" where
  "createGroupOrder db serverNow newId groupOrder =
     addDoc db newId
       \<lparr>createdBy = createdBy groupOrder,
        itemName = itemName groupOrder,
        category = category groupOrder,
        targetPrice = targetPrice groupOrder,
        unit = unit groupOrder,
        minVendors = minVendors groupOrder,
        joinedVendors = joinedVendors groupOrder,
        deadline = deadline groupOrder,
        status = status groupOrder,
        createdAt = serverNow\<rparr>"

text \<open>\<open>now\<close> is the client's \<open>new Date()\<close>.\<close>

definition updatedVendors :: "JoinedVendor list \<Rightarrow> date \<Rightarrow> string \<Rightarrow> number \<Rightarrow> JoinedVendor list" where
  "updatedVendors vs now uid q =
     (case find (\<lambda>v. userId v = uid) vs of
        Some existingVendor \<Rightarrow> map (\<lambda>v. if userId v = uid then v\<lparr>quantity := q\<rparr> else v) vs
      | None \<Rightarrow> vs @ [\<lparr>userId = uid, quantity = q, joinedAt = now\<rparr>])"

definition joinGroupOrder ::
  "Firestore \<Rightarrow> date \<Rightarrow> string \<Rightarrow> string \<Rightarrow> number \<Rightarrow> (error + unit) \<times> Firestore" where
  "joinGroupOrder db now groupOrderId uid q =
     (case getDoc db groupOrderId of
        (Inl e, db') \<Rightarrow> (Inl e, db')
      | (Inr None, db') \<Rightarrow> (Inr (), db')
      | (Inr (Some data), db') \<Rightarrow>
          updateDoc db' groupOrderId
            (\<lambda>g. g\<lparr>joinedVendors := updatedVendors (joinedVendors data) now uid q\<rparr>))"

text \<open>
  Each snapshot document becomes \<open>{id: doc.id, ...doc.data(), createdAt, deadline}\<close>, the
  two timestamps converted with \<open>toDate()\<close>: the document paired with its id.
\<close>

definition getActiveGroupOrders ::
  "Firestore \<Rightarrow> (error + (string \<times> GroupOrder) list) \<times> Firestore" where
  "getActiveGroupOrders db =
     (case getDocs_where_status_orderBy_deadline db Active of
        (Inl e, db') \<Rightarrow> (Inl e, db')
      | (Inr snapshot, db') \<Rightarrow> (Inr (map (\<lambda>(i, d). (i, d)) snapshot), db'))"

section \<open>The component (components/groups/GroupOrderManager.tsx)\<close>

text \<open>
  The fields of the form have the names of the order's fields and carry the prefix
  \<open>form_\<close> here; a parameter that has the name of a field carries the suffix \<open>_arg\<close>.
\<close>

record GroupOrderFormData =
  form_itemName :: string
  form_category :: string
  form_targetPrice :: string
  form_unit :: string
  form_minVendors :: string
  form_deadline :: string

record Toast =
  title :: string
  description :: string
  destructive :: bool

text \<open>The state of the component, and the toasts it has shown.\<close>

record GroupOrderManager =
  groupOrders :: "(string \<times> GroupOrder) list"
  loading :: bool
  dialogOpen :: bool
  formData :: GroupOrderFormData
  toasts :: "Toast list"

definition toast :: "GroupOrderManager \<Rightarrow> Toast \<Rightarrow> GroupOrderManager" where
  "toast c x = c\<lparr>toasts := toasts c @ [x]\<rparr>"

text \<open>
  The translation function \<open>t\<close> of the language context is a parameter, and so are the
  JavaScript built-ins that read the form's strings: \<open>parseFloat\<close>, \<open>parseInt\<close> and the
  \<open>Date\<close> constructor (taken where they give a finite number and a valid date).
\<close>

definition loadGroupOrders ::
  "(string \<Rightarrow> string) \<Rightarrow> GroupOrderManager \<times> Firestore \<Rightarrow> GroupOrderManager \<times> Firestore" where
  "loadGroupOrders t cdb =
     (case cdb of (c, db) \<Rightarrow>
        (case getActiveGroupOrders db of
           (Inr orders, db') \<Rightarrow> (c\<lparr>groupOrders := orders, loading := False\<rparr>, db')
         | (Inl e, db') \<Rightarrow>
             ((toast c \<lparr>title = t ''error'',
                        description = t ''failed_to_load_group_orders'',
                        destructive = True\<rparr>)\<lparr>loading := False\<rparr>, db')))"

definition resetForm :: "GroupOrderManager \<Rightarrow> GroupOrderManager" where
  "resetForm c =
     c\<lparr>formData := \<lparr>form_itemName = [], form_category = [], form_targetPrice = [],
                        form_unit = [], form_minVendors = [], form_deadline = []\<rparr>\<rparr>"

definition handleCreateGroupOrder ::
  "(string \<Rightarrow> string) \<Rightarrow> (string \<Rightarrow> number) \<Rightarrow> (string \<Rightarrow> number) \<Rightarrow> (string \<Rightarrow> date) \<Rightarrow>
   date \<Rightarrow> date \<Rightarrow> string \<Rightarrow> string option \<Rightarrow>
   GroupOrderManager \<times> Firestore \<Rightarrow> GroupOrderManager \<times> Firestore" where
  "handleCreateGroupOrder t parseFloat parseInt newDate now serverNow newId user cdb =
     (case cdb of (c, db) \<Rightarrow>
        (case user of
           None \<Rightarrow>
             (toast c \<lparr>title = t ''error'', description = t ''please_fill_required_fields'',
                       destructive = True\<rparr>, db)
         | Some uid \<Rightarrow>
             if form_itemName (formData c) = [] \<or> form_category (formData c) = [] \<or>
                form_targetPrice (formData c) = [] \<or> form_unit (formData c) = [] \<or>
                form_minVendors (formData c) = [] \<or> form_deadline (formData c) = []
             then
               (toast c \<lparr>title = t ''error'', description = t ''please_fill_required_fields'',
                         destructive = True\<rparr>, db)
             else
               (let groupOrderData =
                      \<lparr>createdBy = uid,
                       itemName = form_itemName (formData c),
                       category = form_category (formData c),
                       targetPrice = parseFloat (form_targetPrice (formData c)),
                       unit = form_unit (formData c),
                       minVendors = parseInt (form_minVendors (formData c)),
                       joinedVendors = [\<lparr>userId = uid, quantity = 1, joinedAt = now\<rparr>],
                       deadline = newDate (form_deadline (formData c)),
                       status = Active\<rparr>
                in case createGroupOrder db serverNow newId groupOrderData of
                     (Inr i, db') \<Rightarrow>
                       loadGroupOrders t
                         (resetForm
                            ((toast c \<lparr>title = t ''success'',
                                       description = t ''group_order_created_successfully'',
                                       destructive = False\<rparr>)\<lparr>dialogOpen := False\<rparr>),
                          db')
                   | (Inl e, db') \<Rightarrow>
                       (toast c \<lparr>title = t ''error'',
                                 description = t ''failed_to_create_group_order'',
                                 destructive = True\<rparr>, db'))))"

text \<open>The parameter \<open>quantity\<close> has the default value 1.\<close>

definition handleJoinGroupOrder ::
  "(string \<Rightarrow> string) \<Rightarrow> date \<Rightarrow> string option \<Rightarrow> string \<Rightarrow> number option \<Rightarrow>
   GroupOrderManager \<times> Firestore \<Rightarrow> GroupOrderManager \<times> Firestore" where
  "handleJoinGroupOrder t now user groupOrderId quantity_arg cdb =
     (case cdb of (c, db) \<Rightarrow>
        (case user of
           None \<Rightarrow> (c, db)
         | Some uid \<Rightarrow>
             (case joinGroupOrder db now groupOrderId uid
                     (case quantity_arg of None \<Rightarrow> 1 | Some q \<Rightarrow> q) of
                (Inr u, db') \<Rightarrow>
                  loadGroupOrders t
                    (toast c \<lparr>title = t ''success'',
                              description = t ''joined_group_order_successfully'',
                              destructive = False\<rparr>, db')
              | (Inl e, db') \<Rightarrow>
                  (toast c \<lparr>title = t ''error'',
                            description = t ''failed_to_join_group_order'',
                            destructive = True\<rparr>, db'))))"

subsection \<open>Derived values shown on a card\<close>

text \<open>
  A template literal prints a non-negative integer in decimal. The time left is positive
  where the source divides, so \<open>Math.floor(x / y)\<close> and \<open>%\<close> are \<open>div\<close> and \<open>mod\<close>.
\<close>

definition digit :: "nat \<Rightarrow> char" where
  "digit n = ''0123456789'' ! (n mod 10)"

fun toString :: "nat \<Rightarrow> string" where
  "toString n = (if n < 10 then [digit n] else toString (n div 10) @ [digit (n mod 10)])"

declare toString.simps [simp del]

definition getTimeRemaining :: "(string \<Rightarrow> string) \<Rightarrow> date \<Rightarrow> date \<Rightarrow> string" where
  "getTimeRemaining t deadline_arg now =
     (let timeLeft = deadline_arg - now in
      if timeLeft \<le> 0 then t ''expired''
      else
        (let days = timeLeft div (1000 * 60 * 60 * 24);
             hours = (timeLeft mod (1000 * 60 * 60 * 24)) div (1000 * 60 * 60);
             minutes = (timeLeft mod (1000 * 60 * 60)) div (1000 * 60)
         in if days > 0 then toString (nat days) @ ''d '' @ toString (nat hours) @ ''h''
            else if hours > 0 then toString (nat hours) @ ''h '' @ toString (nat minutes) @ ''m''
            else toString (nat minutes) @ ''m''))"

text \<open>
  \<open>Math.min((joinedVendors / minVendors) * 100, 100)\<close>. A quotient by zero is not a finite
  number: \<open>0 / 0\<close> is \<open>NaN\<close>, and so is its minimum with 100; a positive number over zero is
  \<open>Infinity\<close>, whose minimum with 100 is 100; a negative one gives \<open>-Infinity\<close>. (Zero is
  read as \<open>+0\<close>.)
\<close>

datatype js_number = Finite real | NaN | NegInfinity

definition getProgressPercentage :: "number \<Rightarrow> number \<Rightarrow> js_number" where
  "getProgressPercentage joinedCount minVendors_arg =
     (if minVendors_arg \<noteq> 0 then Finite (min ((joinedCount / minVendors_arg) * 100) 100)
      else if joinedCount = 0 then NaN
      else if joinedCount > 0 then Finite 100
      else NegInfinity)"

definition isUserJoined :: "string option \<Rightarrow> GroupOrder \<Rightarrow> bool" where
  "isUserJoined user groupOrder =
     (case user of
        None \<Rightarrow> False
      | Some uid \<Rightarrow> list_ex (\<lambda>vendor. userId vendor = uid) (joinedVendors groupOrder))"

definition getTotalQuantity :: "GroupOrder \<Rightarrow> number" where
  "getTotalQuantity groupOrder =
     fold (\<lambda>vendor total. total + quantity vendor) (joinedVendors groupOrder) 0"

section \<open>Properties\<close>

text \<open>
  \<open>accepts db n\<close>: none of the next \<open>n\<close> calls to the store rejects.
\<close>

definition accepts :: "Firestore \<Rightarrow> nat \<Rightarrow> bool" where
  "accepts db n = (True \<notin> set (take n (faults db)))"

text \<open>
  The document that \<open>createGroupOrder\<close> hands to \<open>addDoc\<close>: the given fields and the
  server's timestamp.
\<close>

definition stored :: "GroupOrderData \<Rightarrow> date \<Rightarrow> GroupOrder" where
  "stored d serverNow =
     \<lparr>createdBy = createdBy d, itemName = itemName d, category = category d,
      targetPrice = targetPrice d, unit = unit d, minVendors = minVendors d,
      joinedVendors = joinedVendors d, deadline = deadline d, status = status d,
      createdAt = serverNow\<rparr>"

text \<open>
  One operation of the library on the store, with any arguments and whatever its outcome.
\<close>

inductive coordinator_step :: "Firestore \<Rightarrow> Firestore \<Rightarrow> bool" where
  create: "coordinator_step db (snd (createGroupOrder db serverNow newId groupOrder))"
| join: "coordinator_step db (snd (joinGroupOrder db now groupOrderId uid q))"
| list: "coordinator_step db (snd (getActiveGroupOrders db))"

text \<open>
  \<open>keeps_orders db db'\<close>: every order of \<open>db\<close> is in \<open>db'\<close> under the same id, equal in
  all fields but \<open>joinedVendors\<close>.
\<close>

definition keeps_orders :: "Firestore \<Rightarrow> Firestore \<Rightarrow> bool" where
  "keeps_orders db db' =
     (\<forall>i g. map_of (collection_groupOrders db) i = Some g \<longrightarrow>
        (\<exists>vs. map_of (collection_groupOrders db') i = Some (g\<lparr>joinedVendors := vs\<rparr>)))"

text \<open>
  Every duration that \<open>getTimeRemaining\<close> prints starts with a decimal digit.
\<close>

definition starts_with_digit :: "string \<Rightarrow> bool" where
  "starts_with_digit s = (case s of [] \<Rightarrow> False | ch # rest \<Rightarrow> ch \<in> set ''0123456789'')"

text \<open>
  A store with one order, expired and past its deadline, that two vendors have joined; and the
  same store when its next call rejects.
\<close>

definition demo_order :: GroupOrder where
  "demo_order =
     \<lparr>createdBy = ''alice'', itemName = ''onions'', category = ''vegetables'',
      targetPrice = 20, unit = ''kg'', minVendors = 3,
      joinedVendors =
        [\<lparr>userId = ''alice'', quantity = 1, joinedAt = 1000\<rparr>,
         \<lparr>userId = ''bob'', quantity = 2, joinedAt = 2000\<rparr>],
      deadline = 5000, status = Expired, createdAt = 1000\<rparr>"

definition demo_store :: Firestore where
  "demo_store = \<lparr>collection_groupOrders = [(''g1'', demo_order)], faults = []\<rparr>"

definition demo_faulty :: Firestore where
  "demo_faulty = demo_store\<lparr>faults := [True]\<rparr>"

text \<open>
  A store with two active orders and an expired one between them.
\<close>

definition demo_active :: GroupOrder where
  "demo_active = demo_order\<lparr>status := Active, deadline := 9000\<rparr>"

definition demo_soon :: GroupOrder where
  "demo_soon = demo_order\<lparr>status := Active, deadline := 7000, itemName := ''rice''\<rparr>"

definition demo_listing :: Firestore where
  "demo_listing =
     \<lparr>collection_groupOrders = [(''g1'', demo_active), (''g2'', demo_order), (''g3'', demo_soon)],
      faults = [False, True]\<rparr>"

text \<open>
  A filled form, the order the component creates from it for the user \<open>dave\<close>, and a creation
  input with one vendor as minimum and a deadline in the past.
\<close>

definition demo_form :: GroupOrderFormData where
  "demo_form =
     \<lparr>form_itemName = ''rice'', form_category = ''grains'', form_targetPrice = ''42.5'',
      form_unit = ''kg'', form_minVendors = ''3'', form_deadline = ''2030-01-01T10:00''\<rparr>"

definition demo_component :: GroupOrderManager where
  "demo_component =
     \<lparr>groupOrders = [], loading = False, dialogOpen = True, formData = demo_form, toasts = []\<rparr>"

definition demo_created :: GroupOrder where
  "demo_created =
     \<lparr>createdBy = ''dave'', itemName = ''rice'', category = ''grains'', targetPrice = 85 / 2,
      unit = ''kg'', minVendors = 3,
      joinedVendors = [\<lparr>userId = ''dave'', quantity = 1, joinedAt = 6000\<rparr>],
      deadline = 1893492000000, status = Active, createdAt = 6001\<rparr>"

definition demo_invalid :: GroupOrderData where
  "demo_invalid =
     \<lparr>createdBy = ''dave'', itemName = ''rice'', category = ''grains'', targetPrice = 40,
      unit = ''kg'', minVendors = 1,
      joinedVendors = [\<lparr>userId = ''dave'', quantity = 1, joinedAt = 6000\<rparr>],
      deadline = 5000, status = Active\<rparr>"

subsection \<open>Auxiliary facts\<close>

lemma next_fault_docs:
  "collection_groupOrders (snd (next_fault db)) = collection_groupOrders db"
  by (simp add: next_fault_def split: list.splits)

lemma next_fault_accepts:
  assumes "accepts db (Suc n)"
  shows "next_fault db = (False, db\<lparr>faults := tl (faults db)\<rparr>)"
  using assms by (cases "faults db") (auto simp: next_fault_def accepts_def)

lemma accepts_drop:
  assumes "accepts db (m + n)" and "faults db' = drop m (faults db)"
  shows "accepts db' n"
  using assms by (auto simp: accepts_def take_add)

lemma accepts_mono: "accepts db n \<Longrightarrow> m \<le> n \<Longrightarrow> accepts db m"
  unfolding accepts_def using set_take_subset_set_take [of m n "faults db"] by blast

lemma joinGroupOrder_existing:
  assumes "map_of (collection_groupOrders db) gid = Some g" and "accepts db 2"
  shows "joinGroupOrder db now gid uid q =
           (Inr (),
            db\<lparr>faults := drop 2 (faults db),
               collection_groupOrders :=
                 AList.update gid (g\<lparr>joinedVendors := updatedVendors (joinedVendors g) now uid q\<rparr>)
                   (collection_groupOrders db)\<rparr>)"
proof -
  have a1: "accepts db (Suc 1)" using assms(2) by (simp add: numeral_2_eq_2)
  let ?db1 = "db\<lparr>faults := tl (faults db)\<rparr>"
  have n1: "next_fault db = (False, ?db1)" by (rule next_fault_accepts [OF a1])
  have "accepts ?db1 (Suc 0)"
    by (rule accepts_drop [where m = 1 and db = db]) (use assms(2) in \<open>simp_all add: drop_Suc numeral_2_eq_2\<close>)
  then have n2: "next_fault ?db1 = (False, ?db1\<lparr>faults := tl (faults ?db1)\<rparr>)"
    by (rule next_fault_accepts)
  have d2: "tl (tl (faults db)) = drop 2 (faults db)"
    by (simp add: numeral_2_eq_2 drop_Suc)
  show ?thesis
    using assms(1) by (simp add: joinGroupOrder_def getDoc_def updateDoc_def n1 n2 d2)
qed

lemma joinGroupOrder_missing:
  assumes "map_of (collection_groupOrders db) gid = None" and "accepts db 1"
  shows "joinGroupOrder db now gid uid q = (Inr (), db\<lparr>faults := tl (faults db)\<rparr>)"
  using assms next_fault_accepts [of db 0]
  by (simp add: joinGroupOrder_def getDoc_def)

lemma updatedVendors_member:
  assumes "uid \<in> userId ` set vs"
  shows "updatedVendors vs now uid q = map (\<lambda>v. if userId v = uid then v\<lparr>quantity := q\<rparr> else v) vs"
proof -
  from assms have "find (\<lambda>v. userId v = uid) vs \<noteq> None"
    by (auto simp: find_None_iff)
  then show ?thesis by (auto simp: updatedVendors_def)
qed

lemma updatedVendors_new:
  assumes "uid \<notin> userId ` set vs"
  shows "updatedVendors vs now uid q = vs @ [\<lparr>userId = uid, quantity = q, joinedAt = now\<rparr>]"
proof -
  from assms have "find (\<lambda>v. userId v = uid) vs = None"
    by (auto simp: find_None_iff)
  then show ?thesis by (simp add: updatedVendors_def)
qed

lemma map_userId_requantify:
  "map userId (map (\<lambda>v. if userId v = uid then v\<lparr>quantity := q\<rparr> else v) vs) = map userId vs"
  by (induction vs) simp_all

lemma map_userId_updatedVendors:
  "map userId (updatedVendors vs now uid q) =
     (if uid \<in> userId ` set vs then map userId vs else map userId vs @ [uid])"
proof (cases "uid \<in> userId ` set vs")
  case True
  then show ?thesis
    by (simp only: updatedVendors_member [OF True] map_userId_requantify if_True)
next
  case False
  then show ?thesis
    by (simp add: updatedVendors_new [OF False])
qed

lemma distinct_updatedVendors:
  assumes "distinct (map userId vs)"
  shows "distinct (map userId (updatedVendors vs now uid q))"
  using assms unfolding map_userId_updatedVendors by simp

lemma uid_in_updatedVendors: "uid \<in> set (map userId (updatedVendors vs now uid q))"
  unfolding map_userId_updatedVendors by simp

lemma quantity_updatedVendors:
  assumes "v \<in> set (updatedVendors vs now uid q)" and "userId v = uid"
  shows "quantity v = q"
proof (cases "uid \<in> userId ` set vs")
  case True
  from assms(1) obtain w where "w \<in> set vs"
    and "v = (if userId w = uid then w\<lparr>quantity := q\<rparr> else w)"
    unfolding updatedVendors_member [OF True] by auto
  with assms(2) show ?thesis by (cases "userId w = uid") simp_all
next
  case False
  from assms(1) have "v \<in> set vs \<or> v = \<lparr>userId = uid, quantity = q, joinedAt = now\<rparr>"
    unfolding updatedVendors_new [OF False] by auto
  then show ?thesis
  proof
    assume "v \<in> set vs"
    with assms(2) False show ?thesis by blast
  next
    assume "v = \<lparr>userId = uid, quantity = q, joinedAt = now\<rparr>"
    then have "quantity v = quantity \<lparr>userId = uid, quantity = q, joinedAt = now\<rparr>"
      by (rule arg_cong)
    then show ?thesis by simp
  qed
qed

lemma joinGroupOrder_lookup:
  assumes "map_of (collection_groupOrders db) gid = Some g" and "accepts db 2"
  shows "map_of (collection_groupOrders (snd (joinGroupOrder db now gid uid q))) gid =
           Some (g\<lparr>joinedVendors := updatedVendors (joinedVendors g) now uid q\<rparr>)"
  by (simp add: joinGroupOrder_existing [OF assms] update_conv')

lemma joinGroupOrder_accepts:
  assumes "map_of (collection_groupOrders db) gid = Some g" and "accepts db (2 + n)"
  shows "accepts (snd (joinGroupOrder db now gid uid q)) n"
proof -
  have "accepts db 2" using assms(2) by (rule accepts_mono) simp
  from joinGroupOrder_existing [OF assms(1) this]
  have "faults (snd (joinGroupOrder db now gid uid q)) = drop 2 (faults db)" by simp
  with assms(2) show ?thesis by (rule accepts_drop)
qed

lemma filter_userId_single:
  assumes "distinct (map userId vs)" and "v \<in> set vs"
  shows "filter (\<lambda>w. userId w = userId v) vs = [v]"
  using assms
proof (induction vs)
  case Nil
  then show ?case by simp
next
  case (Cons a vs)
  show ?case
  proof (cases "a = v")
    case True
    with Cons.prems(1) have "userId v \<notin> userId ` set vs" by simp
    then have "\<forall>w\<in>set vs. userId w \<noteq> userId v" by (metis imageI)
    then have "filter (\<lambda>w. userId w = userId v) vs = []" by (simp add: filter_empty_conv)
    with True show ?thesis by simp
  next
    case False
    with Cons.prems have "v \<in> set vs" and "userId a \<noteq> userId v" and "distinct (map userId vs)"
      by auto
    with Cons.IH show ?thesis by simp
  qed
qed

lemma demo_store_g1: "map_of (collection_groupOrders demo_store) ''g1'' = Some demo_order"
  by (simp add: demo_store_def)

lemma demo_store_accepts: "accepts demo_store n"
  by (simp add: accepts_def demo_store_def)

lemma next_fault_cases:
  obtains db' where "next_fault db = (True, db')"
      and "collection_groupOrders db' = collection_groupOrders db"
  | db' where "next_fault db = (False, db')"
      and "collection_groupOrders db' = collection_groupOrders db"
proof (cases "next_fault db")
  case (Pair b db')
  then have "collection_groupOrders db' = collection_groupOrders db"
    using next_fault_docs [of db] by simp
  with Pair that show thesis by (cases b) auto
qed

lemma getDocs_docs:
  "collection_groupOrders (snd (getDocs_where_status_orderBy_deadline db s)) =
     collection_groupOrders db"
  by (rule next_fault_cases [of db]) (simp_all add: getDocs_where_status_orderBy_deadline_def)

lemma getActiveGroupOrders_docs:
  "collection_groupOrders (snd (getActiveGroupOrders db)) = collection_groupOrders db"
proof -
  have "collection_groupOrders (snd (getActiveGroupOrders db)) =
        collection_groupOrders (snd (getDocs_where_status_orderBy_deadline db Active))"
    by (simp add: getActiveGroupOrders_def split: prod.splits sum.splits)
  then show ?thesis by (simp add: getDocs_docs)
qed

lemma getActiveGroupOrders_accepted:
  assumes "accepts db 1"
  shows "fst (getActiveGroupOrders db) =
           Inr (sort_key (\<lambda>(i, g). (deadline g, i))
                  (filter (\<lambda>(i, g). status g = Active) (collection_groupOrders db)))"
  using next_fault_accepts [of db 0] assms
  by (simp add: getActiveGroupOrders_def getDocs_where_status_orderBy_deadline_def)

lemma sorted_map_fst:
  fixes ps :: "('a::linorder \<times> 'b::linorder) list"
  assumes "sorted ps"
  shows "sorted (map fst ps)"
  using assms
proof (induction ps)
  case Nil
  then show ?case by simp
next
  case (Cons p ps)
  then have "\<forall>x\<in>set ps. p \<le> x" and "sorted ps" by simp_all
  then have "\<forall>x\<in>set ps. fst p \<le> fst x"
    by (auto simp: less_eq_prod_def)
  with Cons show ?case by simp
qed

lemma demo_listing_value:
  "fst (getActiveGroupOrders demo_listing) = Inr [(''g3'', demo_soon), (''g1'', demo_active)]"
  by (simp add: getActiveGroupOrders_def getDocs_where_status_orderBy_deadline_def
      next_fault_def demo_listing_def demo_active_def demo_soon_def demo_order_def
      less_eq_prod_def)

lemma getDoc_docs:
  "collection_groupOrders (snd (getDoc db i)) = collection_groupOrders db"
  by (rule next_fault_cases [of db]) (simp_all add: getDoc_def)

lemma getDoc_found:
  assumes "getDoc db i = (Inr r, db')"
  shows "r = map_of (collection_groupOrders db) i"
  using assms
  by (rule_tac db = db in next_fault_cases) (simp_all add: getDoc_def)

lemma keeps_orders_same:
  assumes "collection_groupOrders db' = collection_groupOrders db"
  shows "keeps_orders db db'"
  unfolding keeps_orders_def
proof (intro allI impI)
  fix i g
  assume "map_of (collection_groupOrders db) i = Some g"
  with assms have "map_of (collection_groupOrders db') i = Some (g\<lparr>joinedVendors := joinedVendors g\<rparr>)"
    by simp
  then show "\<exists>vs. map_of (collection_groupOrders db') i = Some (g\<lparr>joinedVendors := vs\<rparr>)" ..
qed

lemma keeps_orders_trans:
  assumes "keeps_orders a b" and "keeps_orders b c"
  shows "keeps_orders a c"
  unfolding keeps_orders_def
proof (intro allI impI)
  fix i g
  assume "map_of (collection_groupOrders a) i = Some g"
  with assms(1) obtain vs where "map_of (collection_groupOrders b) i = Some (g\<lparr>joinedVendors := vs\<rparr>)"
    unfolding keeps_orders_def by blast
  with assms(2) obtain ws where
    "map_of (collection_groupOrders c) i = Some (g\<lparr>joinedVendors := vs\<rparr>\<lparr>joinedVendors := ws\<rparr>)"
    unfolding keeps_orders_def by blast
  then have "map_of (collection_groupOrders c) i = Some (g\<lparr>joinedVendors := ws\<rparr>)" by simp
  then show "\<exists>vs. map_of (collection_groupOrders c) i = Some (g\<lparr>joinedVendors := vs\<rparr>)" ..
qed

lemma keeps_orders_addDoc: "keeps_orders db (snd (addDoc db newId d))"
proof (rule next_fault_cases [of db])
  fix db'
  assume "next_fault db = (True, db')" and "collection_groupOrders db' = collection_groupOrders db"
  then show ?thesis by (simp add: addDoc_def keeps_orders_same)
next
  fix db'
  assume n: "next_fault db = (False, db')"
    and c: "collection_groupOrders db' = collection_groupOrders db"
  show ?thesis
  proof (cases "map_of (collection_groupOrders db) newId")
    case (Some g)
    with n c show ?thesis by (simp add: addDoc_def keeps_orders_same)
  next
    case None
    with n c have s: "collection_groupOrders (snd (addDoc db newId d)) =
        AList.update newId d (collection_groupOrders db)"
      by (simp add: addDoc_def)
    show ?thesis
      unfolding keeps_orders_def
    proof (intro allI impI)
      fix i g
      assume g: "map_of (collection_groupOrders db) i = Some g"
      with None have "i \<noteq> newId" by auto
      with g have "map_of (collection_groupOrders (snd (addDoc db newId d))) i =
          Some (g\<lparr>joinedVendors := joinedVendors g\<rparr>)"
        by (simp add: s update_conv')
      then show "\<exists>vs. map_of (collection_groupOrders (snd (addDoc db newId d))) i =
          Some (g\<lparr>joinedVendors := vs\<rparr>)" ..
    qed
  qed
qed

lemma keeps_orders_updateDoc:
  "keeps_orders db (snd (updateDoc db gid (\<lambda>g. g\<lparr>joinedVendors := ws\<rparr>)))"
proof (rule next_fault_cases [of db])
  fix db'
  assume "next_fault db = (True, db')" and "collection_groupOrders db' = collection_groupOrders db"
  then show ?thesis by (simp add: updateDoc_def keeps_orders_same)
next
  fix db'
  assume n: "next_fault db = (False, db')"
    and c: "collection_groupOrders db' = collection_groupOrders db"
  show ?thesis
  proof (cases "map_of (collection_groupOrders db) gid")
    case None
    with n c show ?thesis by (simp add: updateDoc_def keeps_orders_same)
  next
    case (Some g0)
    with n c have s: "collection_groupOrders (snd (updateDoc db gid (\<lambda>g. g\<lparr>joinedVendors := ws\<rparr>))) =
        AList.update gid (g0\<lparr>joinedVendors := ws\<rparr>) (collection_groupOrders db)"
      by (simp add: updateDoc_def)
    show ?thesis
      unfolding keeps_orders_def
    proof (intro allI impI)
      fix i g
      assume g: "map_of (collection_groupOrders db) i = Some g"
      show "\<exists>vs. map_of (collection_groupOrders (snd (updateDoc db gid (\<lambda>g. g\<lparr>joinedVendors := ws\<rparr>)))) i =
          Some (g\<lparr>joinedVendors := vs\<rparr>)"
      proof (cases "i = gid")
        case True
        with g Some have "g0 = g" by simp
        with True have "map_of (collection_groupOrders (snd (updateDoc db gid (\<lambda>g. g\<lparr>joinedVendors := ws\<rparr>)))) i =
          Some (g\<lparr>joinedVendors := ws\<rparr>)"
          by (simp add: s update_conv')
        then show ?thesis ..
      next
        case False
        with g have "map_of (collection_groupOrders (snd (updateDoc db gid (\<lambda>g. g\<lparr>joinedVendors := ws\<rparr>)))) i =
          Some (g\<lparr>joinedVendors := joinedVendors g\<rparr>)"
          by (simp add: s update_conv')
        then show ?thesis ..
      qed
    qed
  qed
qed

lemma keeps_orders_createGroupOrder:
  "keeps_orders db (snd (createGroupOrder db serverNow newId groupOrder))"
  unfolding createGroupOrder_def by (rule keeps_orders_addDoc)

lemma keeps_orders_joinGroupOrder:
  "keeps_orders db (snd (joinGroupOrder db now gid uid q))"
proof (cases "getDoc db gid")
  case (Pair r db1)
  have c1: "collection_groupOrders db1 = collection_groupOrders db"
    using getDoc_docs [of db gid] Pair by simp
  then have k1: "keeps_orders db db1" by (rule keeps_orders_same)
  show ?thesis
  proof (cases r)
    case (Inl e)
    with Pair k1 show ?thesis by (simp add: joinGroupOrder_def)
  next
    case (Inr found)
    show ?thesis
    proof (cases found)
      case None
      with Pair Inr k1 show ?thesis by (simp add: joinGroupOrder_def)
    next
      case (Some data)
      let ?ws = "updatedVendors (joinedVendors data) now uid q"
      from Pair Inr Some have "snd (joinGroupOrder db now gid uid q) =
          snd (updateDoc db1 gid (\<lambda>g. g\<lparr>joinedVendors := ?ws\<rparr>))"
        by (simp add: joinGroupOrder_def)
      moreover have "keeps_orders db1 (snd (updateDoc db1 gid (\<lambda>g. g\<lparr>joinedVendors := ?ws\<rparr>)))"
        by (rule keeps_orders_updateDoc)
      ultimately show ?thesis using k1 keeps_orders_trans by simp
    qed
  qed
qed

lemma keeps_orders_step:
  assumes "coordinator_step db db'"
  shows "keeps_orders db db'"
  using assms
proof cases
  case (create serverNow newId groupOrder)
  then show ?thesis by (simp add: keeps_orders_createGroupOrder)
next
  case (join now groupOrderId uid q)
  then show ?thesis by (simp add: keeps_orders_joinGroupOrder)
next
  case list
  then show ?thesis by (simp add: keeps_orders_same getActiveGroupOrders_docs)
qed

lemma keeps_orders_steps:
  assumes "coordinator_step\<^sup>*\<^sup>* db db'"
  shows "keeps_orders db db'"
  using assms
proof (induction rule: rtranclp_induct)
  case base
  show ?case by (rule keeps_orders_same) simp
next
  case (step y z)
  from step.IH keeps_orders_step [OF step.hyps(2)] show ?case by (rule keeps_orders_trans)
qed

lemma createGroupOrder_stored:
  "createGroupOrder db serverNow newId d = addDoc db newId (stored d serverNow)"
  by (simp add: createGroupOrder_def stored_def)

lemma addDoc_accepted:
  assumes "accepts db 1" and "map_of (collection_groupOrders db) newId = None"
  shows "addDoc db newId d =
           (Inr newId,
            db\<lparr>faults := tl (faults db),
               collection_groupOrders := AList.update newId d (collection_groupOrders db)\<rparr>)"
  using next_fault_accepts [of db 0] assms by (simp add: addDoc_def)

lemma addDoc_rejected:
  assumes "fst (addDoc db newId d) = Inl e"
  shows "collection_groupOrders (snd (addDoc db newId d)) = collection_groupOrders db"
  using assms
  by (rule_tac db = db in next_fault_cases)
    (auto simp: addDoc_def split: option.splits)

lemma addDoc_new:
  assumes "map_of (collection_groupOrders db) i = None"
    and "map_of (collection_groupOrders (snd (addDoc db newId d))) i = Some g"
  shows "i = newId \<and> g = d"
proof (rule next_fault_cases [of db])
  fix db'
  assume "next_fault db = (True, db')" and "collection_groupOrders db' = collection_groupOrders db"
  with assms show ?thesis by (simp add: addDoc_def)
next
  fix db'
  assume n: "next_fault db = (False, db')"
    and c: "collection_groupOrders db' = collection_groupOrders db"
  show ?thesis
  proof (cases "map_of (collection_groupOrders db) newId")
    case (Some g0)
    with n c assms show ?thesis by (simp add: addDoc_def)
  next
    case None
    with n c have "collection_groupOrders (snd (addDoc db newId d)) =
        AList.update newId d (collection_groupOrders db)"
      by (simp add: addDoc_def)
    with assms show ?thesis
      by (cases "i = newId") (simp_all add: update_conv')
  qed
qed

lemma loadGroupOrders_docs:
  "collection_groupOrders (snd (loadGroupOrders t (c, db))) = collection_groupOrders db"
proof (cases "getActiveGroupOrders db")
  case (Pair r db')
  then have "collection_groupOrders db' = collection_groupOrders db"
    using getActiveGroupOrders_docs [of db] by simp
  with Pair show ?thesis by (cases r) (simp_all add: loadGroupOrders_def)
qed

lemma handleCreateGroupOrder_incomplete:
  assumes "user = None \<or> form_itemName (formData c) = [] \<or> form_category (formData c) = [] \<or>
           form_targetPrice (formData c) = [] \<or> form_unit (formData c) = [] \<or>
           form_minVendors (formData c) = [] \<or> form_deadline (formData c) = []"
  shows "handleCreateGroupOrder t pf pint nd now serverNow newId user (c, db) =
           (toast c \<lparr>title = t ''error'', description = t ''please_fill_required_fields'',
                     destructive = True\<rparr>, db)"
  using assms by (cases user) (auto simp: handleCreateGroupOrder_def)

lemma handleCreateGroupOrder_complete:
  assumes "user = Some uid"
    and "form_itemName (formData c) \<noteq> []" and "form_category (formData c) \<noteq> []"
    and "form_targetPrice (formData c) \<noteq> []" and "form_unit (formData c) \<noteq> []"
    and "form_minVendors (formData c) \<noteq> []" and "form_deadline (formData c) \<noteq> []"
  shows "\<exists>d. createdBy d = uid \<and> status d = Active \<and>
             joinedVendors d = [\<lparr>userId = uid, quantity = 1, joinedAt = now\<rparr>] \<and>
             collection_groupOrders
               (snd (handleCreateGroupOrder t pf pint nd now serverNow newId user (c, db))) =
             collection_groupOrders (snd (createGroupOrder db serverNow newId d))"
proof -
  let ?d = "\<lparr>createdBy = uid,
             itemName = form_itemName (formData c),
             category = form_category (formData c),
             targetPrice = pf (form_targetPrice (formData c)),
             unit = form_unit (formData c),
             minVendors = pint (form_minVendors (formData c)),
             joinedVendors = [\<lparr>userId = uid, quantity = 1, joinedAt = now\<rparr>],
             deadline = nd (form_deadline (formData c)),
             status = Active\<rparr>"
  have "collection_groupOrders
          (snd (handleCreateGroupOrder t pf pint nd now serverNow newId user (c, db))) =
        collection_groupOrders (snd (createGroupOrder db serverNow newId ?d))"
  proof (cases "createGroupOrder db serverNow newId ?d")
    case (Pair r db')
    with assms show ?thesis
      by (cases r) (simp_all add: handleCreateGroupOrder_def loadGroupOrders_docs)
  qed
  moreover have "createdBy ?d = uid \<and> status ?d = Active \<and>
     joinedVendors ?d = [\<lparr>userId = uid, quantity = 1, joinedAt = now\<rparr>]"
    by simp
  ultimately show ?thesis by blast
qed

lemma handleCreateGroupOrder_new_active:
  assumes "map_of (collection_groupOrders db) i = None"
    and "map_of (collection_groupOrders
           (snd (handleCreateGroupOrder t pf pint nd now serverNow newId user (c, db)))) i = Some g"
  shows "status g = Active"
proof (cases "user = None \<or> form_itemName (formData c) = [] \<or> form_category (formData c) = [] \<or>
           form_targetPrice (formData c) = [] \<or> form_unit (formData c) = [] \<or>
           form_minVendors (formData c) = [] \<or> form_deadline (formData c) = []")
  case True
  from assms show ?thesis
    by (simp add: handleCreateGroupOrder_incomplete [OF True])
next
  case False
  then obtain uid where u: "user = Some uid" by auto
  from False have f: "form_itemName (formData c) \<noteq> []" "form_category (formData c) \<noteq> []"
    "form_targetPrice (formData c) \<noteq> []" "form_unit (formData c) \<noteq> []"
    "form_minVendors (formData c) \<noteq> []" "form_deadline (formData c) \<noteq> []"
    by simp_all
  from handleCreateGroupOrder_complete [OF u f]
  obtain d where d: "status d = Active"
    and "collection_groupOrders
           (snd (handleCreateGroupOrder t pf pint nd now serverNow newId user (c, db))) =
         collection_groupOrders (snd (createGroupOrder db serverNow newId d))"
    by blast
  with assms(2) have "map_of (collection_groupOrders (snd (addDoc db newId (stored d serverNow)))) i = Some g"
    by (simp add: createGroupOrder_stored)
  with assms(1) have "g = stored d serverNow" using addDoc_new by blast
  with d show ?thesis by (simp add: stored_def)
qed

lemma demo_store_g2: "map_of (collection_groupOrders demo_store) ''g2'' = None"
  by (simp add: demo_store_def)

lemma demo_handleCreateGroupOrder:
  "collection_groupOrders
     (snd (handleCreateGroupOrder (\<lambda>k. k) (\<lambda>s. 85 / 2) (\<lambda>s. 3) (\<lambda>s. 1893492000000)
             6000 6001 ''g2'' (Some ''dave'') (demo_component, demo_store))) =
   [(''g1'', demo_order), (''g2'', demo_created)]"
  by (simp add: handleCreateGroupOrder_def createGroupOrder_def addDoc_def next_fault_def
      loadGroupOrders_def getActiveGroupOrders_def getDocs_where_status_orderBy_deadline_def
      toast_def resetForm_def demo_component_def demo_form_def demo_store_def demo_created_def
      Let_def)

lemma demo_faulty_createGroupOrder:
  "createGroupOrder demo_faulty 6000 ''g2'' demo_invalid =
     (Inl (FirebaseError ''unavailable''), demo_store)"
  by (simp add: createGroupOrder_def addDoc_def next_fault_def demo_faulty_def demo_store_def)

lemma div_of_mod:
  fixes a :: int
  assumes "0 < b" and "0 < c"
  shows "(a mod (b * c)) div b = (a div b) mod c"
proof -
  have "a mod (b * c) = b * (a div b mod c) + a mod b"
    using assms by (simp add: zmod_zmult2_eq)
  then have "(a mod (b * c)) div b = (b * (a div b mod c) + a mod b) div b" by simp
  also have "\<dots> = a div b mod c"
    using assms by simp
  finally show ?thesis .
qed

lemma hours_of: "((T::int) mod 86400000) div 3600000 = (T div 3600000) mod 24"
  using div_of_mod [of 3600000 24 T] by simp

lemma minutes_of: "((T::int) mod 3600000) div 60000 = (T div 60000) mod 60"
  using div_of_mod [of 60000 60 T] by simp

lemma digit_is_digit: "digit n \<in> set ''0123456789''"
proof -
  have "n mod 10 < length ''0123456789''" by simp
  then have "''0123456789'' ! (n mod 10) \<in> set ''0123456789''" by (rule nth_mem)
  then show ?thesis by (simp only: digit_def)
qed

lemma starts_with_digit_append:
  "starts_with_digit xs \<Longrightarrow> starts_with_digit (xs @ ys)"
  by (cases xs) (simp_all add: starts_with_digit_def)

lemma starts_with_digit_toString: "starts_with_digit (toString n)"
proof (induction n rule: toString.induct)
  case (1 n)
  show ?case
  proof (cases "n < 10")
    case True
    then have "toString n = [digit n]" by (simp add: toString.simps)
    then show ?thesis using digit_is_digit [of n] by (simp only: starts_with_digit_def list.case)
  next
    case False
    then have "toString n = toString (n div 10) @ [digit (n mod 10)]"
      by (simp add: toString.simps [of n])
    with 1 False show ?thesis by (simp add: starts_with_digit_append)
  qed
qed

lemma getTimeRemaining_expired:
  "deadline_arg \<le> now \<Longrightarrow> getTimeRemaining t deadline_arg now = t ''expired''"
  by (simp add: getTimeRemaining_def)

lemma getTimeRemaining_days:
  assumes "86400000 \<le> deadline_arg - now"
  shows "getTimeRemaining t deadline_arg now =
           toString (nat ((deadline_arg - now) div 86400000)) @ ''d '' @
           toString (nat ((deadline_arg - now) div 3600000 mod 24)) @ ''h''"
proof -
  have "0 < (deadline_arg - now) div 86400000"
    using assms by (simp add: pos_imp_zdiv_pos_iff)
  with assms show ?thesis
    by (simp add: getTimeRemaining_def Let_def hours_of)
qed

lemma getTimeRemaining_hours:
  assumes "3600000 \<le> deadline_arg - now" and "deadline_arg - now < 86400000"
  shows "getTimeRemaining t deadline_arg now =
           toString (nat ((deadline_arg - now) div 3600000)) @ ''h '' @
           toString (nat ((deadline_arg - now) div 60000 mod 60)) @ ''m''"
proof -
  have d: "(deadline_arg - now) div 86400000 = 0"
    using assms by (simp add: div_pos_pos_trivial)
  have m: "(deadline_arg - now) mod 86400000 = deadline_arg - now"
    using assms by (simp add: mod_pos_pos_trivial)
  have "0 < (deadline_arg - now) div 3600000"
    using assms by (simp add: pos_imp_zdiv_pos_iff)
  with assms d m show ?thesis
    by (simp add: getTimeRemaining_def Let_def minutes_of)
qed

lemma getTimeRemaining_minutes:
  assumes "0 < deadline_arg - now" and "deadline_arg - now < 3600000"
  shows "getTimeRemaining t deadline_arg now =
           toString (nat ((deadline_arg - now) div 60000)) @ ''m''"
proof -
  have d: "(deadline_arg - now) div 86400000 = 0"
    using assms by (simp add: div_pos_pos_trivial)
  have m: "(deadline_arg - now) mod 86400000 = deadline_arg - now"
    using assms by (simp add: mod_pos_pos_trivial)
  have h: "(deadline_arg - now) div 3600000 = 0"
    using assms by (simp add: div_pos_pos_trivial)
  have m': "(deadline_arg - now) mod 3600000 = deadline_arg - now"
    using assms by (simp add: mod_pos_pos_trivial)
  from assms d m h m' show ?thesis
    by (simp add: getTimeRemaining_def Let_def)
qed

lemma getTimeRemaining_duration:
  assumes "now < deadline_arg"
  shows "starts_with_digit (getTimeRemaining t deadline_arg now)"
proof -
  consider "86400000 \<le> deadline_arg - now"
    | "3600000 \<le> deadline_arg - now" "deadline_arg - now < 86400000"
    | "0 < deadline_arg - now" "deadline_arg - now < 3600000"
    using assms by linarith
  then show ?thesis
  proof cases
    case 1
    then show ?thesis
      by (simp only: getTimeRemaining_days starts_with_digit_append starts_with_digit_toString)
  next
    case 2
    then show ?thesis
      by (simp only: getTimeRemaining_hours starts_with_digit_append starts_with_digit_toString)
  next
    case 3
    then show ?thesis
      by (simp only: getTimeRemaining_minutes starts_with_digit_append starts_with_digit_toString)
  qed
qed

lemma toString_values:
  "toString 0 = ''0''" "toString 1 = ''1''" "toString 2 = ''2''" "toString 3 = ''3''"
  "toString 30 = ''30''" "toString 46 = ''46''" "toString (Suc 0) = ''1''"
  by (simp_all add: toString.simps digit_def)

lemma update_absent:
  assumes "map_of al k = None"
  shows "AList.update k v al = al @ [(k, v)]"
  using assms by (induction al) (auto split: if_splits)

lemma createGroupOrder_accepted:
  assumes "accepts db 1" and "map_of (collection_groupOrders db) newId = None"
  shows "createGroupOrder db serverNow newId groupOrder =
           (Inr newId,
            db\<lparr>faults := tl (faults db),
               collection_groupOrders :=
                 collection_groupOrders db @ [(newId, stored groupOrder serverNow)]\<rparr>)"
  by (simp add: createGroupOrder_stored addDoc_accepted [OF assms] update_absent [OF assms(2)])

lemma createGroupOrder_store_rejects:
  assumes "faults db = True # fs"
  shows "createGroupOrder db serverNow newId groupOrder =
           (Inl (FirebaseError ''unavailable''), db\<lparr>faults := fs\<rparr>)"
  using assms by (simp add: createGroupOrder_def addDoc_def next_fault_def)

subsection \<open>Creating a group order\<close>

text \<open>
  C3, as the code has it. \<open>createGroupOrder\<close> checks neither \<open>minVendors\<close> nor the deadline
  and has no validation error. When the store accepts the write under a fresh id, the call
  returns the new id and the collection gains exactly one document: the order as given, field
  by field, with the server's timestamp as \<open>createdAt\<close>. When the store rejects the call, the
  rejection is rethrown to the caller and nothing is stored; whenever the call ends in an
  error the collection is as it was. A submission with no signed-in user or with an empty
  form field does not reach the store: \<open>handleCreateGroupOrder\<close> answers it with an error
  toast and leaves the store as it was.
\<close>

theorem createGroupOrder_no_validation:
  "(accepts db 1 \<and> map_of (collection_groupOrders db) newId = None \<longrightarrow>
      createGroupOrder db serverNow newId groupOrder =
        (Inr newId,
         db\<lparr>faults := tl (faults db),
            collection_groupOrders :=
              collection_groupOrders db @
                [(newId,
                  \<lparr>createdBy = createdBy groupOrder,
                   itemName = itemName groupOrder,
                   category = category groupOrder,
                   targetPrice = targetPrice groupOrder,
                   unit = unit groupOrder,
                   minVendors = minVendors groupOrder,
                   joinedVendors = joinedVendors groupOrder,
                   deadline = deadline groupOrder,
                   status = status groupOrder,
                   createdAt = serverNow\<rparr>)]\<rparr>)) \<and>
   (faults db = True # fs \<longrightarrow>
      createGroupOrder db serverNow newId groupOrder =
        (Inl (FirebaseError ''unavailable''), db\<lparr>faults := fs\<rparr>)) \<and>
   (fst (createGroupOrder db serverNow newId groupOrder) = Inl e \<longrightarrow>
      collection_groupOrders (snd (createGroupOrder db serverNow newId groupOrder)) =
        collection_groupOrders db) \<and>
   (user = None \<or> form_itemName (formData c) = [] \<or> form_category (formData c) = [] \<or>
    form_targetPrice (formData c) = [] \<or> form_unit (formData c) = [] \<or>
    form_minVendors (formData c) = [] \<or> form_deadline (formData c) = [] \<longrightarrow>
      handleCreateGroupOrder t pf pint nd now serverNow newId user (c, db) =
        (toast c \<lparr>title = t ''error'', description = t ''please_fill_required_fields'',
                  destructive = True\<rparr>, db))"
proof (intro conjI impI)
  assume "accepts db 1 \<and> map_of (collection_groupOrders db) newId = None"
  then have a1: "accepts db 1" and a2: "map_of (collection_groupOrders db) newId = None"
    by simp_all
  show "createGroupOrder db serverNow newId groupOrder =
        (Inr newId,
         db\<lparr>faults := tl (faults db),
            collection_groupOrders :=
              collection_groupOrders db @
                [(newId,
                  \<lparr>createdBy = createdBy groupOrder,
                   itemName = itemName groupOrder,
                   category = category groupOrder,
                   targetPrice = targetPrice groupOrder,
                   unit = unit groupOrder,
                   minVendors = minVendors groupOrder,
                   joinedVendors = joinedVendors groupOrder,
                   deadline = deadline groupOrder,
                   status = status groupOrder,
                   createdAt = serverNow\<rparr>)]\<rparr>)"
    using createGroupOrder_accepted [OF a1 a2] by (simp only: stored_def)
next
  assume "faults db = True # fs"
  then show "createGroupOrder db serverNow newId groupOrder =
      (Inl (FirebaseError ''unavailable''), db\<lparr>faults := fs\<rparr>)"
    by (rule createGroupOrder_store_rejects)
next
  assume "fst (createGroupOrder db serverNow newId groupOrder) = Inl e"
  then show "collection_groupOrders (snd (createGroupOrder db serverNow newId groupOrder)) =
      collection_groupOrders db"
    unfolding createGroupOrder_stored by (rule addDoc_rejected)
next
  assume "user = None \<or> form_itemName (formData c) = [] \<or> form_category (formData c) = [] \<or>
    form_targetPrice (formData c) = [] \<or> form_unit (formData c) = [] \<or>
    form_minVendors (formData c) = [] \<or> form_deadline (formData c) = []"
  then show "handleCreateGroupOrder t pf pint nd now serverNow newId user (c, db) =
      (toast c \<lparr>title = t ''error'', description = t ''please_fill_required_fields'',
                destructive = True\<rparr>, db)"
    by (rule handleCreateGroupOrder_incomplete)
qed

theorem createGroupOrder_no_validation_witness:
  "accepts demo_store 1 \<and> map_of (collection_groupOrders demo_store) ''g2'' = None \<and>
   minVendors demo_invalid < 2 \<and> deadline demo_invalid < 6000 \<and>
   createGroupOrder demo_store 6000 ''g2'' demo_invalid =
     (Inr ''g2'',
      \<lparr>collection_groupOrders =
         [(''g1'', demo_order),
          (''g2'',
           \<lparr>createdBy = ''dave'', itemName = ''rice'', category = ''grains'', targetPrice = 40,
            unit = ''kg'', minVendors = 1,
            joinedVendors = [\<lparr>userId = ''dave'', quantity = 1, joinedAt = 6000\<rparr>],
            deadline = 5000, status = Active, createdAt = 6000\<rparr>)],
       faults = []\<rparr>) \<and>
   faults demo_faulty = True # [] \<and>
   createGroupOrder demo_faulty 6000 ''g2'' demo_invalid =
     (Inl (FirebaseError ''unavailable''), demo_store) \<and>
   collection_groupOrders (snd (createGroupOrder demo_faulty 6000 ''g2'' demo_invalid)) =
     collection_groupOrders demo_faulty \<and>
   form_itemName (formData (resetForm demo_component)) = [] \<and>
   handleCreateGroupOrder (\<lambda>k. k) (\<lambda>s. 85 / 2) (\<lambda>s. 3) (\<lambda>s. 1893492000000)
       6000 6001 ''g2'' (Some ''dave'') (resetForm demo_component, demo_store) =
     (toast (resetForm demo_component)
        \<lparr>title = ''error'', description = ''please_fill_required_fields'', destructive = True\<rparr>,
      demo_store)"
proof -
  have i: "minVendors demo_invalid < 2" "deadline demo_invalid < 6000"
    by (simp_all add: demo_invalid_def)
  have e: "form_itemName (formData (resetForm demo_component)) = []"
    by (simp add: resetForm_def)
  have f: "faults demo_faulty = True # []"
    by (simp add: demo_faulty_def)
  note w1 = createGroupOrder_no_validation
    [where db = demo_store and newId = "''g2''" and serverNow = 6000 and groupOrder = demo_invalid]
  note w2 = createGroupOrder_no_validation
    [where db = demo_faulty and newId = "''g2''" and serverNow = 6000 and groupOrder = demo_invalid
       and fs = "[]" and e = "FirebaseError ''unavailable''"]
  note w3 = createGroupOrder_no_validation
    [where c = "resetForm demo_component" and user = "Some ''dave''" and db = demo_store
       and t = "\<lambda>k. k" and pf = "\<lambda>s. 85 / 2" and pint = "\<lambda>s. 3"
       and nd = "\<lambda>s. 1893492000000" and now = 6000 and serverNow = 6001 and newId = "''g2''"]
  from w1 demo_store_accepts [of 1] demo_store_g2
  have "createGroupOrder demo_store 6000 ''g2'' demo_invalid =
        (Inr ''g2'',
         demo_store\<lparr>faults := tl (faults demo_store),
            collection_groupOrders :=
              collection_groupOrders demo_store @
                [(''g2'',
                  \<lparr>createdBy = createdBy demo_invalid,
                   itemName = itemName demo_invalid,
                   category = category demo_invalid,
                   targetPrice = targetPrice demo_invalid,
                   unit = unit demo_invalid,
                   minVendors = minVendors demo_invalid,
                   joinedVendors = joinedVendors demo_invalid,
                   deadline = deadline demo_invalid,
                   status = status demo_invalid,
                   createdAt = 6000\<rparr>)]\<rparr>)"
    by blast
  then have c1: "createGroupOrder demo_store 6000 ''g2'' demo_invalid =
     (Inr ''g2'',
      \<lparr>collection_groupOrders =
         [(''g1'', demo_order),
          (''g2'',
           \<lparr>createdBy = ''dave'', itemName = ''rice'', category = ''grains'', targetPrice = 40,
            unit = ''kg'', minVendors = 1,
            joinedVendors = [\<lparr>userId = ''dave'', quantity = 1, joinedAt = 6000\<rparr>],
            deadline = 5000, status = Active, createdAt = 6000\<rparr>)],
       faults = []\<rparr>)"
    by (simp add: demo_store_def demo_invalid_def)
  from w2 f
  have "createGroupOrder demo_faulty 6000 ''g2'' demo_invalid =
      (Inl (FirebaseError ''unavailable''), demo_faulty\<lparr>faults := []\<rparr>)"
    by blast
  then have c2: "createGroupOrder demo_faulty 6000 ''g2'' demo_invalid =
      (Inl (FirebaseError ''unavailable''), demo_store)"
    by (simp add: demo_faulty_def demo_store_def)
  then have "fst (createGroupOrder demo_faulty 6000 ''g2'' demo_invalid) =
      Inl (FirebaseError ''unavailable'')"
    by simp
  with w2
  have c2': "collection_groupOrders (snd (createGroupOrder demo_faulty 6000 ''g2'' demo_invalid)) =
     collection_groupOrders demo_faulty"
    by blast
  from w3 e
  have c3: "handleCreateGroupOrder (\<lambda>k. k) (\<lambda>s. 85 / 2) (\<lambda>s. 3) (\<lambda>s. 1893492000000)
       6000 6001 ''g2'' (Some ''dave'') (resetForm demo_component, demo_store) =
     (toast (resetForm demo_component)
        \<lparr>title = ''error'', description = ''please_fill_required_fields'', destructive = True\<rparr>,
      demo_store)"
    by blast
  from c1 c2 c2' c3 i e f demo_store_accepts [of 1] demo_store_g2 show ?thesis by blast
qed

text \<open>
  C3 as stated fails: an order with \<open>minVendors = 1\<close> and a deadline before the current time
  is accepted and stored.
\<close>

theorem createGroupOrder_validation_counterexample:
  "minVendors demo_invalid < 2 \<and> deadline demo_invalid < 6000 \<and>
   createGroupOrder demo_store 6000 ''g2'' demo_invalid =
     (Inr ''g2'',
      demo_store\<lparr>collection_groupOrders :=
        [(''g1'', demo_order), (''g2'', stored demo_invalid 6000)]\<rparr>)"
  by (simp add: createGroupOrder_def addDoc_def next_fault_def demo_store_def demo_invalid_def
      stored_def)

text \<open>
  C4. When a user is signed in, every form field is non-empty and the store accepts the
  write under a fresh id, \<open>handleCreateGroupOrder\<close> stores an order whose status is active and
  whose only joined vendor is the creator, with quantity 1.
\<close>

theorem handleCreateGroupOrder_creates_active:
  assumes "user = Some uid"
    and "form_itemName (formData c) \<noteq> []" and "form_category (formData c) \<noteq> []"
    and "form_targetPrice (formData c) \<noteq> []" and "form_unit (formData c) \<noteq> []"
    and "form_minVendors (formData c) \<noteq> []" and "form_deadline (formData c) \<noteq> []"
    and "accepts db 1" and "map_of (collection_groupOrders db) newId = None"
  shows "\<exists>g. map_of (collection_groupOrders
                (snd (handleCreateGroupOrder t pf pint nd now serverNow newId user (c, db)))) newId =
               Some g \<and>
             status g = Active \<and>
             joinedVendors g = [\<lparr>userId = uid, quantity = 1, joinedAt = now\<rparr>] \<and>
             createdBy g = uid"
proof -
  from handleCreateGroupOrder_complete [OF assms(1-7)]
  obtain d where d: "createdBy d = uid" "status d = Active"
      "joinedVendors d = [\<lparr>userId = uid, quantity = 1, joinedAt = now\<rparr>]"
    and h: "collection_groupOrders
           (snd (handleCreateGroupOrder t pf pint nd now serverNow newId user (c, db))) =
         collection_groupOrders (snd (createGroupOrder db serverNow newId d))"
    by blast
  have "map_of (collection_groupOrders (snd (createGroupOrder db serverNow newId d))) newId =
      Some (stored d serverNow)"
    by (simp add: createGroupOrder_stored addDoc_accepted [OF assms(8,9)] update_conv')
  with h have "map_of (collection_groupOrders
      (snd (handleCreateGroupOrder t pf pint nd now serverNow newId user (c, db)))) newId =
      Some (stored d serverNow)"
    by simp
  moreover have "status (stored d serverNow) = Active"
    and "joinedVendors (stored d serverNow) = [\<lparr>userId = uid, quantity = 1, joinedAt = now\<rparr>]"
    and "createdBy (stored d serverNow) = uid"
    using d by (simp_all add: stored_def)
  ultimately show ?thesis by blast
qed

theorem handleCreateGroupOrder_creates_active_witness:
  "Some ''dave'' = Some ''dave'' \<and>
   form_itemName (formData demo_component) \<noteq> [] \<and>
   form_category (formData demo_component) \<noteq> [] \<and>
   form_targetPrice (formData demo_component) \<noteq> [] \<and>
   form_unit (formData demo_component) \<noteq> [] \<and>
   form_minVendors (formData demo_component) \<noteq> [] \<and>
   form_deadline (formData demo_component) \<noteq> [] \<and>
   accepts demo_store 1 \<and> map_of (collection_groupOrders demo_store) ''g2'' = None \<and>
   (\<exists>g. map_of (collection_groupOrders
          (snd (handleCreateGroupOrder (\<lambda>k. k) (\<lambda>s. 85 / 2) (\<lambda>s. 3) (\<lambda>s. 1893492000000)
                  6000 6001 ''g2'' (Some ''dave'') (demo_component, demo_store)))) ''g2'' =
         Some g \<and>
       status g = Active \<and>
       joinedVendors g = [\<lparr>userId = ''dave'', quantity = 1, joinedAt = 6000\<rparr>] \<and>
       createdBy g = ''dave'')"
proof -
  have f: "form_itemName (formData demo_component) \<noteq> []"
    "form_category (formData demo_component) \<noteq> []"
    "form_targetPrice (formData demo_component) \<noteq> []"
    "form_unit (formData demo_component) \<noteq> []"
    "form_minVendors (formData demo_component) \<noteq> []"
    "form_deadline (formData demo_component) \<noteq> []"
    by (simp_all add: demo_component_def demo_form_def)
  from handleCreateGroupOrder_creates_active [OF refl f demo_store_accepts demo_store_g2]
  show ?thesis using f demo_store_accepts demo_store_g2 by blast
qed

subsection \<open>Joining a group order\<close>

text \<open>
  C1. When every user id occurs at most once among the joined vendors of an order, it still
  does after \<open>joinGroupOrder\<close>; and after two successive calls for the same user the list
  has exactly one entry for that user, with the quantity of the second call (the quantity is
  replaced, not added).
\<close>

theorem joinGroupOrder_unique_replace:
  assumes "map_of (collection_groupOrders db) gid = Some g"
    and "distinct (map userId (joinedVendors g))"
    and "accepts db 4"
  shows "(\<exists>g1. map_of (collection_groupOrders (snd (joinGroupOrder db now1 gid uid q1))) gid = Some g1 \<and>
               distinct (map userId (joinedVendors g1))) \<and>
         (\<exists>g2 e. map_of (collection_groupOrders
                     (snd (joinGroupOrder (snd (joinGroupOrder db now1 gid uid q1)) now2 gid uid q2))) gid =
                   Some g2 \<and>
                 distinct (map userId (joinedVendors g2)) \<and>
                 filter (\<lambda>v. userId v = uid) (joinedVendors g2) = [e] \<and>
                 quantity e = q2)"
proof -
  let ?db1 = "snd (joinGroupOrder db now1 gid uid q1)"
  let ?db2 = "snd (joinGroupOrder ?db1 now2 gid uid q2)"
  let ?vs1 = "updatedVendors (joinedVendors g) now1 uid q1"
  let ?g1 = "g\<lparr>joinedVendors := ?vs1\<rparr>"
  let ?vs2 = "updatedVendors ?vs1 now2 uid q2"
  let ?g2 = "?g1\<lparr>joinedVendors := ?vs2\<rparr>"
  have a2: "accepts db 2" using assms(3) by (rule accepts_mono) simp
  have l1: "map_of (collection_groupOrders ?db1) gid = Some ?g1"
    by (rule joinGroupOrder_lookup [OF assms(1) a2])
  have d1: "distinct (map userId ?vs1)"
    using assms(2) by (rule distinct_updatedVendors)
  have "accepts db (2 + 2)" using assms(3) by simp
  with assms(1) have a1: "accepts ?db1 2" by (rule joinGroupOrder_accepts)
  have "map_of (collection_groupOrders ?db2) gid =
          Some (?g1\<lparr>joinedVendors := updatedVendors (joinedVendors ?g1) now2 uid q2\<rparr>)"
    by (rule joinGroupOrder_lookup [OF l1 a1])
  then have l2: "map_of (collection_groupOrders ?db2) gid = Some ?g2" by simp
  have d2: "distinct (map userId ?vs2)"
    using d1 by (rule distinct_updatedVendors)
  have "uid \<in> set (map userId ?vs2)" by (rule uid_in_updatedVendors)
  then obtain e where e: "e \<in> set ?vs2" and u: "userId e = uid" by auto
  have f: "filter (\<lambda>v. userId v = uid) ?vs2 = [e]"
    using filter_userId_single [OF d2 e] u by simp
  have qe: "quantity e = q2" using e u by (rule quantity_updatedVendors)
  have "map_of (collection_groupOrders ?db2) gid = Some ?g2 \<and>
        distinct (map userId (joinedVendors ?g2)) \<and>
        filter (\<lambda>v. userId v = uid) (joinedVendors ?g2) = [e] \<and> quantity e = q2"
    using l2 d2 f qe by simp
  then have "\<exists>g2 e. map_of (collection_groupOrders ?db2) gid = Some g2 \<and>
        distinct (map userId (joinedVendors g2)) \<and>
        filter (\<lambda>v. userId v = uid) (joinedVendors g2) = [e] \<and> quantity e = q2"
    by blast
  moreover have "\<exists>g1. map_of (collection_groupOrders ?db1) gid = Some g1 \<and>
               distinct (map userId (joinedVendors g1))"
    using l1 d1 by simp
  ultimately show ?thesis by blast
qed

theorem joinGroupOrder_unique_replace_witness:
  "map_of (collection_groupOrders demo_store) ''g1'' = Some demo_order \<and>
   distinct (map userId (joinedVendors demo_order)) \<and>
   accepts demo_store 4 \<and>
   (\<exists>g2 e. map_of (collection_groupOrders
               (snd (joinGroupOrder (snd (joinGroupOrder demo_store 6000 ''g1'' ''carol'' 5))
                      7000 ''g1'' ''carol'' 9))) ''g1'' = Some g2 \<and>
           distinct (map userId (joinedVendors g2)) \<and>
           filter (\<lambda>v. userId v = ''carol'') (joinedVendors g2) = [e] \<and>
           quantity e = 9)"
proof -
  have d: "distinct (map userId (joinedVendors demo_order))"
    by (simp add: demo_order_def)
  from joinGroupOrder_unique_replace [OF demo_store_g1 d demo_store_accepts]
  show ?thesis using demo_store_g1 d demo_store_accepts by blast
qed

text \<open>
  C2, as the code has it. For an id that references no existing order, \<open>joinGroupOrder\<close>
  signals no error when the read succeeds: it returns normally and writes nothing.
\<close>

theorem joinGroupOrder_missing_returns:
  assumes "map_of (collection_groupOrders db) gid = None" and "accepts db 1"
  shows "fst (joinGroupOrder db now gid uid q) = Inr () \<and>
         collection_groupOrders (snd (joinGroupOrder db now gid uid q)) = collection_groupOrders db"
  by (simp add: joinGroupOrder_missing [OF assms])

theorem joinGroupOrder_missing_returns_witness:
  "map_of (collection_groupOrders demo_store) ''g2'' = None \<and> accepts demo_store 1 \<and>
   fst (joinGroupOrder demo_store 6000 ''g2'' ''carol'' 1) = Inr () \<and>
   collection_groupOrders (snd (joinGroupOrder demo_store 6000 ''g2'' ''carol'' 1)) =
     collection_groupOrders demo_store"
proof -
  have n: "map_of (collection_groupOrders demo_store) ''g2'' = None"
    by (simp add: demo_store_def)
  from joinGroupOrder_missing_returns [OF n demo_store_accepts]
  show ?thesis using n demo_store_accepts by blast
qed

text \<open>
  C2 as stated fails: joining the order \<open>g2\<close>, which the store does not hold, returns
  normally and leaves the store as it was.
\<close>

theorem joinGroupOrder_missing_counterexample:
  "joinGroupOrder demo_store 6000 ''g2'' ''carol'' 1 = (Inr (), demo_store)"
  by (simp add: joinGroupOrder_def getDoc_def next_fault_def demo_store_def)

text \<open>
  C9. For an existing order \<open>joinGroupOrder\<close> performs the upsert whatever the order's status
  and deadline and whatever the quantity, which it stores as it is. When the store accepts the
  two calls, the join returns normally and the store differs from the old one in the joined
  vendors of that order alone: the entries of the user get the given quantity where the user
  is in the list, and else the entry of the user, with the given quantity and the current
  time, is appended to the list. The status and the deadline are not read and stay as they
  were.
\<close>

theorem joinGroupOrder_unconditional:
  assumes "map_of (collection_groupOrders db) gid = Some g" and "accepts db 2"
  shows "joinGroupOrder db now gid uid q =
           (Inr (),
            db\<lparr>faults := drop 2 (faults db),
               collection_groupOrders :=
                 AList.update gid
                   (g\<lparr>joinedVendors :=
                        (if uid \<in> userId ` set (joinedVendors g)
                         then map (\<lambda>v. if userId v = uid then v\<lparr>quantity := q\<rparr> else v)
                                (joinedVendors g)
                         else joinedVendors g @
                                [\<lparr>userId = uid, quantity = q, joinedAt = now\<rparr>])\<rparr>)
                   (collection_groupOrders db)\<rparr>) \<and>
         fst (joinGroupOrder db now gid uid q) = Inr () \<and>
         (\<exists>g'. map_of (collection_groupOrders (snd (joinGroupOrder db now gid uid q))) gid = Some g' \<and>
                status g' = status g \<and> deadline g' = deadline g \<and>
                uid \<in> userId ` set (joinedVendors g') \<and>
                (\<forall>v \<in> set (joinedVendors g'). userId v = uid \<longrightarrow> quantity v = q))"
proof -
  let ?vs = "updatedVendors (joinedVendors g) now uid q"
  have u: "?vs =
      (if uid \<in> userId ` set (joinedVendors g)
       then map (\<lambda>v. if userId v = uid then v\<lparr>quantity := q\<rparr> else v) (joinedVendors g)
       else joinedVendors g @ [\<lparr>userId = uid, quantity = q, joinedAt = now\<rparr>])"
    by (cases "uid \<in> userId ` set (joinedVendors g)")
      (simp_all add: updatedVendors_member updatedVendors_new)
  have j: "joinGroupOrder db now gid uid q =
      (Inr (),
       db\<lparr>faults := drop 2 (faults db),
          collection_groupOrders :=
            AList.update gid (g\<lparr>joinedVendors := ?vs\<rparr>) (collection_groupOrders db)\<rparr>)"
    by (rule joinGroupOrder_existing [OF assms])
  have full: "joinGroupOrder db now gid uid q =
           (Inr (),
            db\<lparr>faults := drop 2 (faults db),
               collection_groupOrders :=
                 AList.update gid
                   (g\<lparr>joinedVendors :=
                        (if uid \<in> userId ` set (joinedVendors g)
                         then map (\<lambda>v. if userId v = uid then v\<lparr>quantity := q\<rparr> else v)
                                (joinedVendors g)
                         else joinedVendors g @
                                [\<lparr>userId = uid, quantity = q, joinedAt = now\<rparr>])\<rparr>)
                   (collection_groupOrders db)\<rparr>)"
    using j by (simp only: u)
  have r: "fst (joinGroupOrder db now gid uid q) = Inr ()"
    by (simp add: j)
  have l: "map_of (collection_groupOrders (snd (joinGroupOrder db now gid uid q))) gid =
      Some (g\<lparr>joinedVendors := ?vs\<rparr>)"
    by (rule joinGroupOrder_lookup [OF assms])
  have m: "uid \<in> userId ` set ?vs"
    using uid_in_updatedVendors [of uid "joinedVendors g" now q] by simp
  have qv: "\<forall>v \<in> set ?vs. userId v = uid \<longrightarrow> quantity v = q"
    using quantity_updatedVendors by blast
  from l m qv have "\<exists>g'. map_of (collection_groupOrders (snd (joinGroupOrder db now gid uid q))) gid = Some g' \<and>
                status g' = status g \<and> deadline g' = deadline g \<and>
                uid \<in> userId ` set (joinedVendors g') \<and>
                (\<forall>v \<in> set (joinedVendors g'). userId v = uid \<longrightarrow> quantity v = q)"
    by simp
  with full r show ?thesis by (intro conjI)
qed

theorem joinGroupOrder_unconditional_witness:
  "map_of (collection_groupOrders demo_store) ''g1'' = Some demo_order \<and> accepts demo_store 2 \<and>
   status demo_order = Expired \<and> deadline demo_order < 6000 \<and>
   joinGroupOrder demo_store 6000 ''g1'' ''carol'' (- 2) =
     (Inr (),
      \<lparr>collection_groupOrders =
         [(''g1'',
           demo_order\<lparr>joinedVendors :=
             [\<lparr>userId = ''alice'', quantity = 1, joinedAt = 1000\<rparr>,
              \<lparr>userId = ''bob'', quantity = 2, joinedAt = 2000\<rparr>,
              \<lparr>userId = ''carol'', quantity = - 2, joinedAt = 6000\<rparr>]\<rparr>)],
       faults = []\<rparr>) \<and>
   joinGroupOrder demo_store 7000 ''g1'' ''bob'' 0 =
     (Inr (),
      \<lparr>collection_groupOrders =
         [(''g1'',
           demo_order\<lparr>joinedVendors :=
             [\<lparr>userId = ''alice'', quantity = 1, joinedAt = 1000\<rparr>,
              \<lparr>userId = ''bob'', quantity = 0, joinedAt = 2000\<rparr>]\<rparr>)],
       faults = []\<rparr>)"
proof -
  have s: "status demo_order = Expired" and dl: "deadline demo_order < 6000"
    by (simp_all add: demo_order_def)
  note w = joinGroupOrder_unconditional [OF demo_store_g1 demo_store_accepts]
  from w [of 6000 "''carol''" "- 2"]
  have a: "joinGroupOrder demo_store 6000 ''g1'' ''carol'' (- 2) =
     (Inr (),
      \<lparr>collection_groupOrders =
         [(''g1'',
           demo_order\<lparr>joinedVendors :=
             [\<lparr>userId = ''alice'', quantity = 1, joinedAt = 1000\<rparr>,
              \<lparr>userId = ''bob'', quantity = 2, joinedAt = 2000\<rparr>,
              \<lparr>userId = ''carol'', quantity = - 2, joinedAt = 6000\<rparr>]\<rparr>)],
       faults = []\<rparr>)"
    by (simp add: demo_store_def demo_order_def)
  from w [of 7000 "''bob''" 0]
  have b: "joinGroupOrder demo_store 7000 ''g1'' ''bob'' 0 =
     (Inr (),
      \<lparr>collection_groupOrders =
         [(''g1'',
           demo_order\<lparr>joinedVendors :=
             [\<lparr>userId = ''alice'', quantity = 1, joinedAt = 1000\<rparr>,
              \<lparr>userId = ''bob'', quantity = 0, joinedAt = 2000\<rparr>]\<rparr>)],
       faults = []\<rparr>)"
    by (simp add: demo_store_def demo_order_def)
  from a b s dl demo_store_g1 demo_store_accepts [of 2] show ?thesis by blast
qed

text \<open>
  C10. A join by a user who is already in the list changes only the quantity of that user's
  entry: the list keeps its length, the entry keeps its position, its user id and its
  \<open>joinedAt\<close>, and every other entry is unchanged. A join by a new user appends the new entry
  at the end. No other field of the order changes.
\<close>

theorem joinGroupOrder_frame:
  assumes "map_of (collection_groupOrders db) gid = Some g" and "accepts db 2"
  shows "\<exists>vs'. map_of (collection_groupOrders (snd (joinGroupOrder db now gid uid q))) gid =
                 Some (g\<lparr>joinedVendors := vs'\<rparr>) \<and>
           (if uid \<in> userId ` set (joinedVendors g)
            then length vs' = length (joinedVendors g) \<and>
                 (\<forall>k < length (joinedVendors g).
                    vs' ! k = (if userId (joinedVendors g ! k) = uid
                               then (joinedVendors g ! k)\<lparr>quantity := q\<rparr>
                               else joinedVendors g ! k))
            else vs' = joinedVendors g @ [\<lparr>userId = uid, quantity = q, joinedAt = now\<rparr>])"
proof (intro exI conjI)
  show "map_of (collection_groupOrders (snd (joinGroupOrder db now gid uid q))) gid =
          Some (g\<lparr>joinedVendors := updatedVendors (joinedVendors g) now uid q\<rparr>)"
    by (rule joinGroupOrder_lookup [OF assms])
  show "if uid \<in> userId ` set (joinedVendors g)
        then length (updatedVendors (joinedVendors g) now uid q) = length (joinedVendors g) \<and>
             (\<forall>k < length (joinedVendors g).
                updatedVendors (joinedVendors g) now uid q ! k =
                  (if userId (joinedVendors g ! k) = uid
                   then (joinedVendors g ! k)\<lparr>quantity := q\<rparr>
                   else joinedVendors g ! k))
        else updatedVendors (joinedVendors g) now uid q =
               joinedVendors g @ [\<lparr>userId = uid, quantity = q, joinedAt = now\<rparr>]"
  proof (cases "uid \<in> userId ` set (joinedVendors g)")
    case True
    then show ?thesis by (simp add: updatedVendors_member [OF True])
  next
    case False
    then show ?thesis by (simp add: updatedVendors_new [OF False])
  qed
qed

theorem joinGroupOrder_frame_witness:
  "map_of (collection_groupOrders demo_store) ''g1'' = Some demo_order \<and> accepts demo_store 2 \<and>
   (\<exists>vs'. map_of (collection_groupOrders (snd (joinGroupOrder demo_store 6000 ''g1'' ''bob'' 7))) ''g1'' =
                 Some (demo_order\<lparr>joinedVendors := vs'\<rparr>) \<and>
           (if ''bob'' \<in> userId ` set (joinedVendors demo_order)
            then length vs' = length (joinedVendors demo_order) \<and>
                 (\<forall>k < length (joinedVendors demo_order).
                    vs' ! k = (if userId (joinedVendors demo_order ! k) = ''bob''
                               then (joinedVendors demo_order ! k)\<lparr>quantity := 7\<rparr>
                               else joinedVendors demo_order ! k))
            else vs' = joinedVendors demo_order @ [\<lparr>userId = ''bob'', quantity = 7, joinedAt = 6000\<rparr>]))"
  by (intro conjI demo_store_g1 demo_store_accepts
        joinGroupOrder_frame [OF demo_store_g1 demo_store_accepts])

subsection \<open>Listing the active group orders\<close>

text \<open>
  C5. When the query is not rejected, \<open>getActiveGroupOrders\<close> returns exactly the orders of
  the store whose status is active, each once, in ascending order of deadline. It never
  writes to the store.
\<close>

theorem getActiveGroupOrders_active_sorted:
  "(accepts db 1 \<longrightarrow>
      (\<exists>orders. fst (getActiveGroupOrders db) = Inr orders \<and>
         set orders = {(i, g). (i, g) \<in> set (collection_groupOrders db) \<and> status g = Active} \<and>
         length orders =
           length (filter (\<lambda>(i, g). status g = Active) (collection_groupOrders db)) \<and>
         sorted (map (\<lambda>(i, g). deadline g) orders))) \<and>
   collection_groupOrders (snd (getActiveGroupOrders db)) = collection_groupOrders db"
proof (intro conjI impI)
  assume a: "accepts db 1"
  let ?key = "\<lambda>(i :: string, g :: GroupOrder). (deadline g, i)"
  let ?orders = "sort_key ?key (filter (\<lambda>(i, g). status g = Active) (collection_groupOrders db))"
  have r: "fst (getActiveGroupOrders db) = Inr ?orders"
    by (rule getActiveGroupOrders_accepted [OF a])
  have s: "set ?orders = {(i, g). (i, g) \<in> set (collection_groupOrders db) \<and> status g = Active}"
    by auto
  have l: "length ?orders =
      length (filter (\<lambda>(i, g). status g = Active) (collection_groupOrders db))"
    by simp
  have "sorted (map ?key ?orders)" by (rule sorted_sort_key)
  then have "sorted (map fst (map ?key ?orders))" by (rule sorted_map_fst)
  moreover have k: "map fst (map ?key xs) = map (\<lambda>(i, g). deadline g) xs" for xs
    by (induction xs) auto
  ultimately have o: "sorted (map (\<lambda>(i, g). deadline g) ?orders)" by (simp only: k)
  from r s l o show "\<exists>orders. fst (getActiveGroupOrders db) = Inr orders \<and>
         set orders = {(i, g). (i, g) \<in> set (collection_groupOrders db) \<and> status g = Active} \<and>
         length orders =
           length (filter (\<lambda>(i, g). status g = Active) (collection_groupOrders db)) \<and>
         sorted (map (\<lambda>(i, g). deadline g) orders)"
    by blast
next
  show "collection_groupOrders (snd (getActiveGroupOrders db)) = collection_groupOrders db"
    by (rule getActiveGroupOrders_docs)
qed

theorem getActiveGroupOrders_active_sorted_witness:
  "accepts demo_listing 1 \<and>
   fst (getActiveGroupOrders demo_listing) = Inr [(''g3'', demo_soon), (''g1'', demo_active)] \<and>
   (\<exists>orders. fst (getActiveGroupOrders demo_listing) = Inr orders \<and>
      set orders =
        {(i, g). (i, g) \<in> set (collection_groupOrders demo_listing) \<and> status g = Active} \<and>
      length orders =
        length (filter (\<lambda>(i, g). status g = Active) (collection_groupOrders demo_listing)) \<and>
      sorted (map (\<lambda>(i, g). deadline g) orders)) \<and>
   collection_groupOrders (snd (getActiveGroupOrders demo_listing)) =
     collection_groupOrders demo_listing"
proof -
  have a: "accepts demo_listing 1"
    by (simp add: accepts_def demo_listing_def)
  from getActiveGroupOrders_active_sorted [of demo_listing] a demo_listing_value
  show ?thesis by blast
qed

subsection \<open>The status of an order\<close>

text \<open>
  C6. Through any sequence of operations an order keeps its status, deadline, minimum number
  of vendors, item name, category, target price, unit and creation time: only
  \<open>joinedVendors\<close> is ever written. An order that \<open>handleCreateGroupOrder\<close> adds is active,
  and \<open>getActiveGroupOrders\<close> writes nothing. So no order ever leaves the status it was
  created with.
\<close>

theorem status_never_changes:
  "(coordinator_step\<^sup>*\<^sup>* db db' \<and> map_of (collection_groupOrders db) i = Some g \<longrightarrow>
      (\<exists>g'. map_of (collection_groupOrders db') i = Some g' \<and>
         status g' = status g \<and> deadline g' = deadline g \<and> minVendors g' = minVendors g \<and>
         itemName g' = itemName g \<and> category g' = category g \<and>
         targetPrice g' = targetPrice g \<and> unit g' = unit g \<and> createdAt g' = createdAt g)) \<and>
   (map_of (collection_groupOrders db) i = None \<and>
    map_of (collection_groupOrders
      (snd (handleCreateGroupOrder t pf pint nd now serverNow newId user (c, db)))) i = Some g \<longrightarrow>
      status g = Active) \<and>
   collection_groupOrders (snd (getActiveGroupOrders db)) = collection_groupOrders db"
proof (intro conjI impI)
  assume "coordinator_step\<^sup>*\<^sup>* db db' \<and> map_of (collection_groupOrders db) i = Some g"
  then have "keeps_orders db db'" and "map_of (collection_groupOrders db) i = Some g"
    by (simp_all add: keeps_orders_steps)
  then obtain vs where "map_of (collection_groupOrders db') i = Some (g\<lparr>joinedVendors := vs\<rparr>)"
    unfolding keeps_orders_def by blast
  then show "\<exists>g'. map_of (collection_groupOrders db') i = Some g' \<and>
         status g' = status g \<and> deadline g' = deadline g \<and> minVendors g' = minVendors g \<and>
         itemName g' = itemName g \<and> category g' = category g \<and>
         targetPrice g' = targetPrice g \<and> unit g' = unit g \<and> createdAt g' = createdAt g"
    by simp
next
  assume "map_of (collection_groupOrders db) i = None \<and>
    map_of (collection_groupOrders
      (snd (handleCreateGroupOrder t pf pint nd now serverNow newId user (c, db)))) i = Some g"
  then show "status g = Active"
    using handleCreateGroupOrder_new_active by blast
next
  show "collection_groupOrders (snd (getActiveGroupOrders db)) = collection_groupOrders db"
    by (rule getActiveGroupOrders_docs)
qed

theorem status_never_changes_witness:
  "coordinator_step\<^sup>*\<^sup>* demo_store
     (snd (getActiveGroupOrders (snd (joinGroupOrder demo_store 6000 ''g1'' ''carol'' 3)))) \<and>
   map_of (collection_groupOrders demo_store) ''g1'' = Some demo_order \<and>
   (\<exists>g'. map_of (collection_groupOrders
            (snd (getActiveGroupOrders (snd (joinGroupOrder demo_store 6000 ''g1'' ''carol'' 3)))))
            ''g1'' = Some g' \<and>
         status g' = status demo_order \<and> deadline g' = deadline demo_order \<and>
         minVendors g' = minVendors demo_order \<and> itemName g' = itemName demo_order \<and>
         category g' = category demo_order \<and> targetPrice g' = targetPrice demo_order \<and>
         unit g' = unit demo_order \<and> createdAt g' = createdAt demo_order) \<and>
   map_of (collection_groupOrders demo_store) ''g2'' = None \<and>
   map_of (collection_groupOrders
     (snd (handleCreateGroupOrder (\<lambda>k. k) (\<lambda>s. 85 / 2) (\<lambda>s. 3) (\<lambda>s. 1893492000000)
             6000 6001 ''g2'' (Some ''dave'') (demo_component, demo_store)))) ''g2'' =
     Some demo_created \<and>
   status demo_created = Active"
proof -
  have h: "map_of (collection_groupOrders
     (snd (handleCreateGroupOrder (\<lambda>k. k) (\<lambda>s. 85 / 2) (\<lambda>s. 3) (\<lambda>s. 1893492000000)
             6000 6001 ''g2'' (Some ''dave'') (demo_component, demo_store)))) ''g2'' =
     Some demo_created"
    by (simp add: demo_handleCreateGroupOrder)
  note w = status_never_changes
    [where db = demo_store and i = "''g2''" and g = demo_created and c = demo_component
       and user = "Some ''dave''" and t = "\<lambda>k. k" and pf = "\<lambda>s. 85 / 2" and pint = "\<lambda>s. 3"
       and nd = "\<lambda>s. 1893492000000" and now = 6000 and serverNow = 6001 and newId = "''g2''"]
  from w h demo_store_g2 have a: "status demo_created = Active" by blast
  let ?db1 = "snd (joinGroupOrder demo_store 6000 ''g1'' ''carol'' 3)"
  let ?db2 = "snd (getActiveGroupOrders ?db1)"
  have "coordinator_step demo_store ?db1" by (rule coordinator_step.join)
  moreover have "coordinator_step ?db1 ?db2" by (rule coordinator_step.list)
  ultimately have r: "coordinator_step\<^sup>*\<^sup>* demo_store ?db2" by auto
  from status_never_changes [of demo_store ?db2 "''g1''" demo_order] r demo_store_g1
  have "\<exists>g'. map_of (collection_groupOrders ?db2) ''g1'' = Some g' \<and>
         status g' = status demo_order \<and> deadline g' = deadline demo_order \<and>
         minVendors g' = minVendors demo_order \<and> itemName g' = itemName demo_order \<and>
         category g' = category demo_order \<and> targetPrice g' = targetPrice demo_order \<and>
         unit g' = unit demo_order \<and> createdAt g' = createdAt demo_order"
    by blast
  with r demo_store_g1 demo_store_g2 h a show ?thesis by blast
qed

subsection \<open>Derived values shown on a card\<close>

text \<open>
  C7. For a member count that is not negative and a minimum of at least one vendor,
  \<open>getProgressPercentage\<close> is the minimum of \<open>memberCount / minVendors * 100\<close> and 100, a
  finite number between 0 and 100 however far the member count exceeds the minimum.
\<close>

theorem getProgressPercentage_capped:
  assumes "0 \<le> memberCount" and "1 \<le> minVendors_arg"
  shows "getProgressPercentage memberCount minVendors_arg =
           Finite (min (memberCount / minVendors_arg * 100) 100) \<and>
         (\<exists>p. getProgressPercentage memberCount minVendors_arg = Finite p \<and> 0 \<le> p \<and> p \<le> 100)"
proof -
  have nz: "minVendors_arg \<noteq> 0" using assms(2) by simp
  then have v: "getProgressPercentage memberCount minVendors_arg =
      Finite (min (memberCount / minVendors_arg * 100) 100)"
    by (simp add: getProgressPercentage_def)
  have "0 \<le> memberCount / minVendors_arg"
    using assms by (intro divide_nonneg_nonneg) simp_all
  then have "0 \<le> memberCount / minVendors_arg * 100"
    by (rule mult_nonneg_nonneg) simp
  then have "0 \<le> min (memberCount / minVendors_arg * 100) 100"
    by (intro min.boundedI) simp_all
  moreover have "min (memberCount / minVendors_arg * 100) 100 \<le> 100" by simp
  ultimately show ?thesis using v by blast
qed

theorem getProgressPercentage_capped_witness:
  "(0::real) \<le> 3 \<and> (1::real) \<le> 3 \<and>
   getProgressPercentage 3 3 = Finite 100 \<and>
   getProgressPercentage 1 4 = Finite 25 \<and>
   getProgressPercentage 50 3 = Finite 100"
proof -
  from getProgressPercentage_capped [of 3 3] have a: "getProgressPercentage 3 3 = Finite 100"
    by simp
  from getProgressPercentage_capped [of 1 4] have b: "getProgressPercentage 1 4 = Finite 25"
    by simp
  from getProgressPercentage_capped [of 50 3] have c: "getProgressPercentage 50 3 = Finite 100"
    by simp
  from a b c show ?thesis by simp
qed

text \<open>
  C8. Let the translation of \<open>expired\<close> be a label that does not start with a digit. Then
  \<open>getTimeRemaining\<close> returns the label exactly when the deadline is not after \<open>now\<close>.
  Before the deadline it returns a duration: days and hours when at least one day is left,
  hours and minutes when at least one hour and less than one day is left, and minutes alone
  when less than one hour is left.
\<close>

theorem getTimeRemaining_expired_or_duration:
  assumes "\<not> starts_with_digit (t ''expired'')"
  shows "((getTimeRemaining t deadline_arg now = t ''expired'') = (deadline_arg \<le> now)) \<and>
         (now < deadline_arg \<longrightarrow>
            starts_with_digit (getTimeRemaining t deadline_arg now) \<and>
            (86400000 \<le> deadline_arg - now \<longrightarrow>
               getTimeRemaining t deadline_arg now =
                 toString (nat ((deadline_arg - now) div 86400000)) @ ''d '' @
                 toString (nat ((deadline_arg - now) div 3600000 mod 24)) @ ''h'') \<and>
            (3600000 \<le> deadline_arg - now \<and> deadline_arg - now < 86400000 \<longrightarrow>
               getTimeRemaining t deadline_arg now =
                 toString (nat ((deadline_arg - now) div 3600000)) @ ''h '' @
                 toString (nat ((deadline_arg - now) div 60000 mod 60)) @ ''m'') \<and>
            (deadline_arg - now < 3600000 \<longrightarrow>
               getTimeRemaining t deadline_arg now =
                 toString (nat ((deadline_arg - now) div 60000)) @ ''m''))"
proof (intro conjI impI)
  show "(getTimeRemaining t deadline_arg now = t ''expired'') = (deadline_arg \<le> now)"
  proof
    assume e: "getTimeRemaining t deadline_arg now = t ''expired''"
    show "deadline_arg \<le> now"
    proof (rule ccontr)
      assume "\<not> deadline_arg \<le> now"
      then have "starts_with_digit (getTimeRemaining t deadline_arg now)"
        by (simp add: getTimeRemaining_duration)
      with e assms show False by simp
    qed
  next
    assume "deadline_arg \<le> now"
    then show "getTimeRemaining t deadline_arg now = t ''expired''"
      by (rule getTimeRemaining_expired)
  qed
next
  assume "now < deadline_arg"
  then show "starts_with_digit (getTimeRemaining t deadline_arg now)"
    by (rule getTimeRemaining_duration)
next
  assume "86400000 \<le> deadline_arg - now"
  then show "getTimeRemaining t deadline_arg now =
      toString (nat ((deadline_arg - now) div 86400000)) @ ''d '' @
      toString (nat ((deadline_arg - now) div 3600000 mod 24)) @ ''h''"
    by (rule getTimeRemaining_days)
next
  assume "3600000 \<le> deadline_arg - now \<and> deadline_arg - now < 86400000"
  then show "getTimeRemaining t deadline_arg now =
      toString (nat ((deadline_arg - now) div 3600000)) @ ''h '' @
      toString (nat ((deadline_arg - now) div 60000 mod 60)) @ ''m''"
    by (simp add: getTimeRemaining_hours)
next
  assume "now < deadline_arg" and "deadline_arg - now < 3600000"
  then show "getTimeRemaining t deadline_arg now =
      toString (nat ((deadline_arg - now) div 60000)) @ ''m''"
    by (simp add: getTimeRemaining_minutes)
qed

theorem getTimeRemaining_expired_or_duration_witness:
  "\<not> starts_with_digit ((\<lambda>k. k) ''expired'') \<and>
   getTimeRemaining (\<lambda>k. k) 30000 31000 = ''expired'' \<and>
   getTimeRemaining (\<lambda>k. k) 30000 30000 = ''expired'' \<and>
   getTimeRemaining (\<lambda>k. k) 100000000 0 = ''1d 3h'' \<and>
   getTimeRemaining (\<lambda>k. k) 5401000 1000 = ''1h 30m'' \<and>
   getTimeRemaining (\<lambda>k. k) 121000 1000 = ''2m'' \<and>
   getTimeRemaining (\<lambda>k. k) 30000 0 = ''0m''"
proof -
  have l: "\<not> starts_with_digit ''expired''"
    by (simp add: starts_with_digit_def)
  note w = getTimeRemaining_expired_or_duration [where t = "\<lambda>k. k", simplified, OF l]
  from w [of 30000 31000] have e1: "getTimeRemaining (\<lambda>k. k) 30000 31000 = ''expired''"
    by simp
  from w [of 30000 30000] have e2: "getTimeRemaining (\<lambda>k. k) 30000 30000 = ''expired''"
    by simp
  from w [of 100000000 0] have d: "getTimeRemaining (\<lambda>k. k) 100000000 0 = ''1d 3h''"
    by (simp add: toString_values)
  from w [of 5401000 1000] have h: "getTimeRemaining (\<lambda>k. k) 5401000 1000 = ''1h 30m''"
    by (simp add: toString_values)
  from w [of 121000 1000] have m: "getTimeRemaining (\<lambda>k. k) 121000 1000 = ''2m''"
    by (simp add: toString_values)
  from w [of 30000 0] have z: "getTimeRemaining (\<lambda>k. k) 30000 0 = ''0m''"
    by (simp add: toString_values)
  from l e1 e2 d h m z show ?thesis by blast
qed

end
